theory Spec2Isabelle
  imports Main "HOL-Library.AList" "HOL-Library.Sublist"
begin

section \<open>Background jobs of the web UI: registry, validation lock, launcher, progress stream\<close>

text \<open>
  The development embeds the job orchestration of the web UI:
  \<^item> \<^verbatim>\<open>jobManager\<close> (the second document of \<^verbatim>\<open>lib/server/validationTrigger.ts\<close>): the
    \<^verbatim>\<open>Job\<close> interface, the registry \<^verbatim>\<open>activeJobs\<close>, the validation lock and the cleanup
    interval;
  \<^item> \<^verbatim>\<open>routes/api/validate/+server.ts\<close> (\<^verbatim>\<open>POST\<close>) and \<^verbatim>\<open>triggerBackgroundValidation\<close>:
    the two validation launchers;
  \<^item> the sort launcher, the progress stream (\<^verbatim>\<open>GET\<close>) and the status endpoint
    (\<^verbatim>\<open>unnamed/part_005\<close>).

  The server runs on one JavaScript event loop: every handler runs to completion, so a
  handler is a function from server state to server state, and a run of the server is a
  list of handler invocations chosen by the environment (requests, child process events,
  timer ticks). Job objects are shared between the registry and the closures of the
  launch that created them, so they live in an explicit store addressed by launch number.
\<close>

subsection \<open>Text helpers of the JavaScript runtime\<close>

text \<open>
  A JavaScript string is a sequence of UTF-16 code units. The strings the program
  writes or names (literals, job ids, arguments, messages) are ASCII and are kept as
  Isabelle \<open>string\<close>s; \<open>lit\<close> gives their code units. A \<^verbatim>\<open>Buffer\<close> of bytes from a
  child process is an Isabelle \<open>string\<close> as well: one 8-bit character per byte.
\<close>

type_synonym jstring = "nat list"

definition lit :: "string \<Rightarrow> jstring" where
  "lit s = map of_char s"

definition newline :: nat where
  "newline = 0x0A"

text \<open>\<^verbatim>\<open>s.split('\n')\<close>: the segments between newlines; never the empty list.\<close>

fun split_nl :: "jstring \<Rightarrow> jstring list" where
  "split_nl [] = [[]]"
| "split_nl (c # cs) =
     (if c = newline then [] # split_nl cs
      else (case split_nl cs of
              [] \<Rightarrow> [[c]]
            | line # lines \<Rightarrow> (c # line) # lines))"

text \<open>
  The code units \<^verbatim>\<open>String.prototype.trim\<close> removes: the white space and line terminators
  of ECMAScript.
\<close>

definition is_ws :: "nat \<Rightarrow> bool" where
  "is_ws c \<longleftrightarrow>
     c \<in> {0x09, 0x0A, 0x0B, 0x0C, 0x0D, 0x20, 0xA0, 0x1680, 0x2028, 0x2029, 0x202F, 0x205F,
           0x3000, 0xFEFF}
     \<or> (0x2000 \<le> c \<and> c \<le> 0x200A)"

definition js_trim :: "jstring \<Rightarrow> jstring" where
  "js_trim s = rev (dropWhile is_ws (rev (dropWhile is_ws s)))"

text \<open>Decimal text of a number, as a template literal prints it.\<close>

fun show_nat :: "nat \<Rightarrow> string" where
  "show_nat n =
     (if n < 10 then [''0123456789'' ! n]
      else show_nat (n div 10) @ [''0123456789'' ! (n mod 10)])"

declare show_nat.simps [simp del]

definition show_int :: "int \<Rightarrow> string" where
  "show_int i = (if i < 0 then CHR ''-'' # show_nat (nat (- i)) else show_nat (nat i))"

subsection \<open>JSON values\<close>

text \<open>
  The values \<^verbatim>\<open>JSON.parse\<close> returns. An object holds its own properties, one entry per
  key; the keys the program reads are ASCII, and keys are kept as program strings.
\<close>

datatype json =
    JNull
  | JBool bool
  | JNum int
  | JStr jstring
  | JArr "json list"
  | JObj "(string \<times> json) list"

text \<open>
  Two functions of the runtime that the handlers call and this repository does not
  define. Every function that calls one of them takes the record as the parameter \<open>rt\<close>.
  \<^item> \<open>JSON_parse\<close> is \<^verbatim>\<open>JSON.parse\<close>; \<open>None\<close> stands for the \<^verbatim>\<open>SyntaxError\<close>.
  \<^item> \<open>toString\<close> is \<^verbatim>\<open>Buffer.prototype.toString\<close>: it decodes the bytes of one chunk as
    UTF-8, on their own. No launcher calls \<^verbatim>\<open>setEncoding\<close>, so the \<^verbatim>\<open>data\<close> events carry
    buffers, and the bytes of a character cut by a chunk boundary are decoded apart.
\<close>

record runtime =
  JSON_parse :: "jstring \<Rightarrow> json option"
  toString :: "string \<Rightarrow> jstring"

text \<open>
  Property access \<^verbatim>\<open>v.k\<close> on a parsed value other than \<^verbatim>\<open>null\<close>; \<open>None\<close> is
  \<^verbatim>\<open>undefined\<close>. Only the keys \<^verbatim>\<open>type\<close>, \<^verbatim>\<open>errors\<close> and \<^verbatim>\<open>stats\<close> are ever read, and
  primitives and arrays have none of them.
\<close>

fun get_prop :: "json \<Rightarrow> string \<Rightarrow> json option" where
  "get_prop (JObj kvs) k = map_of kvs k"
| "get_prop _ k = None"

subsection \<open>The Job interface\<close>

datatype job_type = Validation | Sort

datatype status = Running | Complete | Error

text \<open>
  \<^verbatim>\<open>process\<close>, \<^verbatim>\<open>result\<close> and \<^verbatim>\<open>endTime\<close> are optional fields: \<open>None\<close> is "absent".
  The process handle is the number of the launch that spawned the child.
\<close>

record Job =
  job_id :: string
  job_type :: job_type
  startTime :: int
  status :: status
  events :: "json list"
  process :: "nat option"
  result :: "json option"
  endTime :: "int option"

text \<open>
  One launch: the Job object it created, the arguments of the child process, and the
  variables its stream handlers close over.
\<close>

record launch =
  job :: Job
  args :: "string list"
  stdoutBuffer :: jstring
  stderrBuffer :: jstring
  finalResult :: json

subsection \<open>The stdout handler\<close>

text \<open>
  The body of the \<^verbatim>\<open>for (const line of lines)\<close> loop. \<open>key\<close> is the property that marks
  a final result: \<^verbatim>\<open>errors\<close> in both validation launchers, \<^verbatim>\<open>stats\<close> in the sort
  launcher. On \<^verbatim>\<open>null\<close> the access \<^verbatim>\<open>parsed.type\<close> throws inside the \<^verbatim>\<open>try\<close>, and the
  empty \<^verbatim>\<open>catch\<close> swallows it like a syntax error.
\<close>

definition process_line :: "runtime \<Rightarrow> string \<Rightarrow> jstring \<Rightarrow> launch \<Rightarrow> launch" where
  "process_line rt key line l =
     (if js_trim line = [] then l
      else case JSON_parse rt line of
        None \<Rightarrow> l
      | Some JNull \<Rightarrow> l
      | Some parsed \<Rightarrow>
          if get_prop parsed ''type'' = Some (JStr (lit ''progress''))
          then l\<lparr>job := (job l)\<lparr>events := events (job l) @ [parsed]\<rparr>\<rparr>
          else if get_prop parsed key \<noteq> None
          then l\<lparr>finalResult := parsed\<rparr>
          else l)"

definition process_lines :: "runtime \<Rightarrow> string \<Rightarrow> jstring list \<Rightarrow> launch \<Rightarrow> launch" where
  "process_lines rt key lines l = foldl (\<lambda>l line. process_line rt key line l) l lines"

text \<open>
  The \<^verbatim>\<open>stdout.on('data', ...)\<close> handler from the point where the chunk has been decoded:
  append the text, split, keep the last segment (\<^verbatim>\<open>lines.pop() || ''\<close>) as the new
  buffer, and process the segments before it.
\<close>

definition on_stdout_text :: "runtime \<Rightarrow> string \<Rightarrow> jstring \<Rightarrow> launch \<Rightarrow> launch" where
  "on_stdout_text rt key decoded l =
     (let lines = split_nl (stdoutBuffer l @ decoded)
      in process_lines rt key (butlast lines) (l\<lparr>stdoutBuffer := last lines\<rparr>))"

text \<open>
  The whole handler: \<^verbatim>\<open>stdoutBuffer += data.toString()\<close> decodes the bytes of this chunk
  alone, then the lines are processed.
\<close>

definition on_stdout_data :: "runtime \<Rightarrow> string \<Rightarrow> string \<Rightarrow> launch \<Rightarrow> launch" where
  "on_stdout_data rt key data l = on_stdout_text rt key (toString rt data) l"

definition result_key :: "job_type \<Rightarrow> string" where
  "result_key t = (case t of Validation \<Rightarrow> ''errors'' | Sort \<Rightarrow> ''stats'')"

text \<open>The chunks of a child's standard output, delivered one after the other.\<close>

definition feed :: "runtime \<Rightarrow> string \<Rightarrow> string list \<Rightarrow> launch \<Rightarrow> launch" where
  "feed rt key chunks l = foldl (\<lambda>l data. on_stdout_data rt key data l) l chunks"

subsection \<open>Events built by the server\<close>

definition show_code :: "int option \<Rightarrow> string" where
  "show_code code = (case code of None \<Rightarrow> ''null'' | Some c \<Rightarrow> show_int c)"

definition spawn_error_event :: "string \<Rightarrow> json" where
  "spawn_error_event msg =
     JObj [(''type'', JStr (lit ''error'')),
           (''message'', JStr (lit (''Failed to spawn validation process: '' @ msg)))]"

definition exit_error_event :: "job_type \<Rightarrow> int option \<Rightarrow> jstring \<Rightarrow> json" where
  "exit_error_event t code err =
     JObj [(''type'', JStr (lit ''error'')),
           (''message'', JStr (lit ((case t of Validation \<Rightarrow> ''Validation'' | Sort \<Rightarrow> ''Sort'')
                                    @ '' process exited with code '' @ show_code code))),
           (''stderr'', JStr err)]"

definition complete_event :: "json \<Rightarrow> json" where
  "complete_event r = JObj [(''type'', JStr (lit ''complete'')), (''result'', r)]"

definition timeout_event :: json where
  "timeout_event = JObj [(''type'', JStr (lit ''error'')),
                         (''message'', JStr (lit ''Job timed out after 30 minutes''))]"

subsection \<open>Server state: lock, registry, store of launches\<close>

text \<open>
  \<open>activeJobs\<close> is the \<^verbatim>\<open>Map\<close> from job id to Job object, in insertion order; an object
  is named by its address in \<open>launches\<close>. \<open>released\<close> is a ghost log, not a variable of
  the program: every call of \<^verbatim>\<open>releaseValidationLock\<close> appends the launch on whose
  behalf it was made (\<open>None\<close> when the launch had not created a job yet).
\<close>

record server =
  validationLock :: bool
  activeJobs :: "(string \<times> nat) list"
  launches :: "launch list"
  released :: "nat option list"

definition init_server :: server where
  "init_server = \<lparr>validationLock = False, activeJobs = [], launches = [], released = []\<rparr>"

definition tryAcquireValidationLock :: "server \<Rightarrow> bool \<times> server" where
  "tryAcquireValidationLock s =
     (if validationLock s then (False, s) else (True, s\<lparr>validationLock := True\<rparr>))"

definition releaseValidationLock :: "nat option \<Rightarrow> server \<Rightarrow> server" where
  "releaseValidationLock who s = s\<lparr>validationLock := False, released := released s @ [who]\<rparr>"

definition job_at :: "server \<Rightarrow> nat \<Rightarrow> Job" where
  "job_at s a = job (launches s ! a)"

definition update_launch :: "nat \<Rightarrow> (launch \<Rightarrow> launch) \<Rightarrow> server \<Rightarrow> server" where
  "update_launch a f s =
     (if a < length (launches s) then s\<lparr>launches := (launches s)[a := f (launches s ! a)]\<rparr>
      else s)"

definition update_job :: "nat \<Rightarrow> (Job \<Rightarrow> Job) \<Rightarrow> server \<Rightarrow> server" where
  "update_job a f s = update_launch a (\<lambda>l. l\<lparr>job := f (job l)\<rparr>) s"

definition terminal :: "Job \<Rightarrow> bool" where
  "terminal j \<longleftrightarrow> status j = Complete \<or> status j = Error"

text \<open>\<^verbatim>\<open>getActiveValidationJob\<close>: the first running validation job of the registry.\<close>

definition getActiveValidationJob :: "server \<Rightarrow> Job option" where
  "getActiveValidationJob s =
     find (\<lambda>j. job_type j = Validation \<and> status j = Running)
          (map (\<lambda>(jobId, a). job_at s a) (activeJobs s))"

definition hasActiveValidationJob :: "server \<Rightarrow> bool" where
  "hasActiveValidationJob s \<longleftrightarrow> getActiveValidationJob s \<noteq> None"

subsection \<open>Launchers\<close>

text \<open>
  A launcher runs in one piece. The only suspension point of \<^verbatim>\<open>POST\<close> is the
  \<^verbatim>\<open>await\<close> of the request body, right after the lock was taken; the model reads the
  body without letting another handler run in between.
\<close>

text \<open>
  "Clean up old validation-current job if it exists and is complete": the registry entry
  is deleted only when the job it holds is terminal.
\<close>

definition evict_terminal :: "string \<Rightarrow> server \<Rightarrow> server" where
  "evict_terminal jobId s =
     (case map_of (activeJobs s) jobId of
        None \<Rightarrow> s
      | Some a \<Rightarrow>
          if status (job_at s a) = Complete \<or> status (job_at s a) = Error
          then s\<lparr>activeJobs := AList.delete jobId (activeJobs s)\<rparr>
          else s)"

text \<open>
  \<^verbatim>\<open>activeJobs.set(jobId, job)\<close>, \<^verbatim>\<open>spawn\<close> and \<^verbatim>\<open>job.process = pythonProcess\<close>, which run
  without interruption: a fresh Job object, stored under \<open>jobId\<close> (replacing whatever the
  key held), with the child as its process handle and the closure variables initialised.
  \<^verbatim>\<open>spawn\<close> is taken to return a child; a child that cannot be started reports it
  through its \<^verbatim>\<open>error\<close> event. A \<^verbatim>\<open>spawn\<close> that throws instead is not part of the model:
  in \<^verbatim>\<open>POST\<close> the \<^verbatim>\<open>catch\<close> would release the lock and leave the registered job
  running, in \<^verbatim>\<open>triggerBackgroundValidation\<close>, which has no \<^verbatim>\<open>catch\<close>, the lock would
  stay taken.
\<close>

definition register_job :: "string \<Rightarrow> job_type \<Rightarrow> int \<Rightarrow> string list \<Rightarrow> server \<Rightarrow> server" where
  "register_job jobId t now as s =
     (let p = length (launches s);
          j = \<lparr>job_id = jobId, job_type = t, startTime = now, status = Running,
               events = [], process = Some p, result = None, endTime = None\<rparr>
      in s\<lparr>activeJobs := AList.update jobId p (activeJobs s),
            launches := launches s @
              [\<lparr>job = j, args = as, stdoutBuffer = [], stderrBuffer = [],
                finalResult = JNull\<rparr>]\<rparr>)"

definition validate_args :: "string \<Rightarrow> string list" where
  "validate_args type =
     [''-m'', ''ofd'', ''validate'', ''--json'', ''--progress''] @
     (if type = ''json_files'' then [''--json-files'']
      else if type = ''logo_files'' then [''--logo-files'']
      else if type = ''folder_names'' then [''--folder-names'']
      else if type = ''store_ids'' then [''--store-ids'']
      else [])"

definition sort_args :: "bool \<Rightarrow> bool \<Rightarrow> string list" where
  "sort_args dryRun runValidation =
     [''-m'', ''ofd'', ''script'', ''style_data'', ''--json'', ''--progress''] @
     (if dryRun then [''--dry-run''] else []) @
     (if runValidation then [''--validate''] else [])"

text \<open>A JSON response: HTTP status and body.\<close>

type_synonym response = "nat \<times> json"

definition started :: "string \<Rightarrow> string \<Rightarrow> response" where
  "started route jobId =
     (200, JObj [(''jobId'', JStr (lit jobId)), (''sseUrl'', JStr (lit (route @ jobId)))])"

definition conflict :: response where
  "conflict = (409, JObj [(''error'',
     JStr (lit ''A validation job is already running. Please wait for it to complete.''))])"

definition internal_error :: response where
  "internal_error = (500, JObj [(''error'', JStr (lit ''Internal server error''))])"

text \<open>
  \<^verbatim>\<open>POST /api/validate\<close>. \<open>body\<close> is the \<^verbatim>\<open>type\<close> read from \<^verbatim>\<open>await request.json()\<close>
  (\<^verbatim>\<open>'full'\<close> when the body has none); \<open>None\<close> when reading the body throws, which
  the \<^verbatim>\<open>catch\<close> answers with 500 after releasing the lock. \<open>now\<close> is \<^verbatim>\<open>Date.now()\<close>.
\<close>

definition post_validate :: "string option \<Rightarrow> int \<Rightarrow> server \<Rightarrow> response \<times> server" where
  "post_validate body now s =
     (case tryAcquireValidationLock s of
        (False, s0) \<Rightarrow> (conflict, s0)
      | (True, s1) \<Rightarrow>
          (case body of
             None \<Rightarrow> (internal_error, releaseValidationLock None s1)
           | Some type \<Rightarrow>
               (started ''/api/validate/stream/'' ''validation-current'',
                register_job ''validation-current'' Validation now (validate_args type)
                  (evict_terminal ''validation-current'' s1))))"

definition triggerBackgroundValidation :: "int \<Rightarrow> server \<Rightarrow> bool \<times> server" where
  "triggerBackgroundValidation now s =
     (case tryAcquireValidationLock s of
        (False, s0) \<Rightarrow> (False, s0)
      | (True, s1) \<Rightarrow>
          (True,
           register_job ''validation-current'' Validation now
             [''-m'', ''ofd'', ''validate'', ''--json'', ''--progress'']
             (evict_terminal ''validation-current'' s1)))"

text \<open>
  \<^verbatim>\<open>POST /api/sort\<close>. \<open>uuid\<close> is the value of \<^verbatim>\<open>randomUUID()\<close>; \<open>body\<close> holds
  \<^verbatim>\<open>dryRun\<close> and \<^verbatim>\<open>runValidation\<close>, \<open>None\<close> when reading the body throws.
\<close>

definition post_sort :: "string \<Rightarrow> (bool \<times> bool) option \<Rightarrow> int \<Rightarrow> server \<Rightarrow> response \<times> server" where
  "post_sort uuid body now s =
     (case body of
        None \<Rightarrow> (internal_error, s)
      | Some (dryRun, runValidation) \<Rightarrow>
          (started ''/api/sort/stream/'' uuid,
           register_job uuid Sort now (sort_args dryRun runValidation) s))"

subsection \<open>Child process handlers\<close>

text \<open>\<^verbatim>\<open>stderrBuffer += data.toString()\<close>.\<close>

definition on_stderr_data :: "runtime \<Rightarrow> string \<Rightarrow> launch \<Rightarrow> launch" where
  "on_stderr_data rt data l = l\<lparr>stderrBuffer := stderrBuffer l @ toString rt data\<rparr>"

text \<open>
  \<^verbatim>\<open>pythonProcess.on('error', ...)\<close>, registered by the two validation launchers only.
\<close>

definition on_error :: "nat \<Rightarrow> string \<Rightarrow> int \<Rightarrow> server \<Rightarrow> server" where
  "on_error p msg now s =
     releaseValidationLock (Some p)
       (update_job p (\<lambda>j. j\<lparr>status := Error,
                             events := events j @ [spawn_error_event msg],
                             endTime := Some now\<rparr>) s)"

text \<open>
  First half of \<^verbatim>\<open>pythonProcess.on('close', ...)\<close>: a non-blank rest of the buffer is
  parsed, trimmed, and on success assigned to \<^verbatim>\<open>finalResult\<close>.
\<close>

definition parse_trailing :: "runtime \<Rightarrow> launch \<Rightarrow> launch" where
  "parse_trailing rt l =
     (if js_trim (stdoutBuffer l) \<noteq> [] then
        (case JSON_parse rt (js_trim (stdoutBuffer l)) of
           Some v \<Rightarrow> l\<lparr>finalResult := v\<rparr>
         | None \<Rightarrow> l)
      else l)"

text \<open>Second half: the exit code decides the status; \<open>None\<close> is the code \<^verbatim>\<open>null\<close>.\<close>

definition finish :: "int option \<Rightarrow> int \<Rightarrow> launch \<Rightarrow> launch" where
  "finish code now l =
     (let j = job l;
          j' = (if code = Some 0 \<or> code = Some 1
                then j\<lparr>status := Complete, result := Some (finalResult l),
                       events := events j @ [complete_event (finalResult l)]\<rparr>
                else j\<lparr>status := Error,
                       events := events j @
                         [exit_error_event (job_type j) code (stderrBuffer l)]\<rparr>)
      in l\<lparr>job := j'\<lparr>endTime := Some now\<rparr>\<rparr>)"

text \<open>
  The whole \<^verbatim>\<open>close\<close> handler of launch \<open>p\<close>. The validation launchers end it with
  \<^verbatim>\<open>releaseValidationLock()\<close>; the sort launcher does not touch the lock.
\<close>

definition on_close :: "runtime \<Rightarrow> nat \<Rightarrow> int option \<Rightarrow> int \<Rightarrow> server \<Rightarrow> server" where
  "on_close rt p code now s =
     (let s' = update_launch p (\<lambda>l. finish code now (parse_trailing rt l)) s
      in if job_type (job_at s p) = Validation then releaseValidationLock (Some p) s' else s')"

subsection \<open>The cleanup interval\<close>

text \<open>
  The body of the loop over \<^verbatim>\<open>activeJobs.entries()\<close> for one entry. \<^verbatim>\<open>job.endTime &&\<close>
  is false for an absent end time and for 0. Killing the child changes no server state.
\<close>

definition sweep_job :: "int \<Rightarrow> string \<times> nat \<Rightarrow> server \<Rightarrow> server" where
  "sweep_job now entry s =
     (let jobId = fst entry; a = snd entry;
          s1 = (case endTime (job_at s a) of
                  None \<Rightarrow> s
                | Some e \<Rightarrow>
                    if e \<noteq> 0 \<and> now - e > 5 * 60 * 1000
                    then s\<lparr>activeJobs := AList.delete jobId (activeJobs s)\<rparr>
                    else s)
      in if status (job_at s1 a) = Running \<and> now - startTime (job_at s1 a) > 30 * 60 * 1000
         then
           (let s2 = update_job a (\<lambda>j. j\<lparr>status := Error,
                                         events := events j @ [timeout_event],
                                         endTime := Some now\<rparr>) s1
            in if job_type (job_at s1 a) = Validation
               then releaseValidationLock (Some a) s2 else s2)
         else s1)"

text \<open>
  One tick of the interval. The loop only ever deletes the entry it is visiting, so it
  visits exactly the entries present when the tick starts.
\<close>

definition sweep :: "int \<Rightarrow> server \<Rightarrow> server" where
  "sweep now s = foldl (\<lambda>s entry. sweep_job now entry s) s (activeJobs s)"

subsection \<open>Runs of the server\<close>

text \<open>
  What the environment can make the server do: the three launch requests, the events of
  the child of launch \<open>p\<close>, and a tick of the cleanup interval. The integer is the value
  of \<^verbatim>\<open>Date.now()\<close> where the handler reads the clock.
\<close>

datatype action =
    PostValidate "string option" int
  | TriggerBackground int
  | PostSort string "(bool \<times> bool) option" int
  | StdoutData nat string
  | StderrData nat string
  | ProcessError nat string int
  | ProcessClose nat "int option" int
  | CleanupTick int

text \<open>
  An event of a child that was never spawned reaches no handler. The sort launcher
  registers no \<^verbatim>\<open>error\<close> listener, so its jobs are not touched by that event.
\<close>

fun step :: "runtime \<Rightarrow> action \<Rightarrow> server \<Rightarrow> server" where
  "step rt (PostValidate body now) s = snd (post_validate body now s)"
| "step rt (TriggerBackground now) s = snd (triggerBackgroundValidation now s)"
| "step rt (PostSort uuid body now) s = snd (post_sort uuid body now s)"
| "step rt (StdoutData p data) s =
     update_launch p (\<lambda>l. on_stdout_data rt (result_key (job_type (job l))) data l) s"
| "step rt (StderrData p data) s = update_launch p (on_stderr_data rt data) s"
| "step rt (ProcessError p msg now) s =
     (if p < length (launches s) \<and> job_type (job_at s p) = Validation
      then on_error p msg now s else s)"
| "step rt (ProcessClose p code now) s =
     (if p < length (launches s) then on_close rt p code now s else s)"
| "step rt (CleanupTick now) s = sweep now s"

definition run :: "runtime \<Rightarrow> action list \<Rightarrow> server \<Rightarrow> server" where
  "run rt acts s = foldl (\<lambda>s a. step rt a s) s acts"

subsection \<open>The progress stream\<close>

text \<open>
  One connection: the index of the next event to send, the events enqueued so far (the
  payloads of the \<^verbatim>\<open>data:\<close> messages), whether the controller was closed, and whether
  the polling interval is set (\<^verbatim>\<open>intervalHandle\<close> is not \<^verbatim>\<open>null\<close>).
\<close>

record observer =
  eventIndex :: nat
  sent :: "json list"
  closed :: bool
  polling :: bool

text \<open>
  \<^verbatim>\<open>for (let i = eventIndex; i < job.events.length; i++) sendEvent(job.events[i])\<close>
  followed by \<^verbatim>\<open>eventIndex = job.events.length\<close>.
\<close>

definition send_new :: "Job \<Rightarrow> observer \<Rightarrow> observer" where
  "send_new j ob =
     ob\<lparr>sent := sent ob @ drop (eventIndex ob) (events j), eventIndex := length (events j)\<rparr>"

text \<open>\<^verbatim>\<open>start(controller)\<close>, run when the stream is constructed.\<close>

definition stream_start :: "Job \<Rightarrow> observer" where
  "stream_start j =
     (let ob = send_new j \<lparr>eventIndex = 0, sent = [], closed = False, polling = False\<rparr>
      in if status j = Complete \<or> status j = Error
         then ob\<lparr>closed := True\<rparr>
         else ob\<lparr>polling := True\<rparr>)"

text \<open>The interval callback; it runs only while the interval is set.\<close>

definition poll :: "Job \<Rightarrow> observer \<Rightarrow> observer" where
  "poll j ob =
     (if polling ob then
        (let ob' = send_new j ob
         in if status j = Complete \<or> status j = Error
            then ob'\<lparr>polling := False, closed := True\<rparr>
            else ob')
      else ob)"

definition cancel :: "observer \<Rightarrow> observer" where
  "cancel ob = ob\<lparr>polling := False\<rparr>"

datatype stream_response = NotFound nat string | EventStream nat observer

text \<open>
  \<^verbatim>\<open>GET\<close> of the stream route. The handler reads the registry and assigns nothing in
  it, so it returns the server state it was given. An opened stream holds the Job
  object it found (its address) and the state of the connection after \<^verbatim>\<open>start\<close>.
\<close>

definition stream_GET :: "string \<Rightarrow> server \<Rightarrow> stream_response \<times> server" where
  "stream_GET jobId s =
     (case map_of (activeJobs s) jobId of
        None \<Rightarrow> (NotFound 404 ''Job not found'', s)
      | Some a \<Rightarrow> (EventStream a (stream_start (job_at s a)), s))"

text \<open>
  A connection next to the running server: the server takes a step, or the polling
  interval of the connection on the Job object at address \<open>a\<close> fires.
\<close>

datatype stream_action = Server action | PollTick

fun stream_step :: "runtime \<Rightarrow> nat \<Rightarrow> stream_action \<Rightarrow> server \<times> observer \<Rightarrow> server \<times> observer" where
  "stream_step rt a (Server act) (s, ob) = (step rt act s, ob)"
| "stream_step rt a PollTick (s, ob) = (s, poll (job_at s a) ob)"

definition stream_run ::
  "runtime \<Rightarrow> nat \<Rightarrow> stream_action list \<Rightarrow> server \<times> observer \<Rightarrow> server \<times> observer" where
  "stream_run rt a acts c = foldl (\<lambda>c x. stream_step rt a x c) c acts"

text \<open>The status endpoint.\<close>

definition status_GET :: "server \<Rightarrow> json" where
  "status_GET s =
     (case getActiveValidationJob s of
        None \<Rightarrow> JObj [(''running'', JBool False)]
      | Some j \<Rightarrow>
          JObj [(''running'', JBool True), (''jobId'', JStr (lit (job_id j))),
                (''startTime'', JNum (startTime j)),
                (''status'', JStr (lit (case status j of Running \<Rightarrow> ''running''
                                        | Complete \<Rightarrow> ''complete'' | Error \<Rightarrow> ''error'')))])"

subsection \<open>A sample runtime\<close>

text \<open>
  A stand-in for \<^verbatim>\<open>JSON.parse\<close> on the handful of lines the examples below use.
\<close>

definition sample_parse :: "jstring \<Rightarrow> json option" where
  "sample_parse line =
     (if line = lit ''{\"type\":\"progress\",\"stage\":\"folder-names\",\"percent\":50}''
      then Some (JObj [(''type'', JStr (lit ''progress'')),
                       (''stage'', JStr (lit ''folder-names'')), (''percent'', JNum 50)])
      else if line = lit ''{\"type\":\"progress\",\"message\":\"'' @ [0xE9] @ lit ''\"}''
      then Some (JObj [(''type'', JStr (lit ''progress'')), (''message'', JStr [0xE9])])
      else if line = lit ''{\"type\":\"progress\",\"message\":\"'' @ [0xFFFD, 0xFFFD] @ lit ''\"}''
      then Some (JObj [(''type'', JStr (lit ''progress'')),
                       (''message'', JStr [0xFFFD, 0xFFFD])])
      else if line = lit ''{\"errors\":[],\"error_count\":0,\"is_valid\":true}''
      then Some (JObj [(''errors'', JArr []), (''error_count'', JNum 0),
                       (''is_valid'', JBool True)])
      else if line = lit ''{\"stats\":{}}''
      then Some (JObj [(''stats'', JObj [])])
      else if line = lit ''42'' then Some (JNum 42)
      else if line = lit ''null'' then Some JNull
      else None)"

text \<open>
  A stand-in for the UTF-8 decoder of \<^verbatim>\<open>toString\<close> on the bytes the examples use: ASCII
  and two-byte sequences. A byte that does not start a character, and a two-byte
  character whose second byte is missing, decode to U+FFFD. The examples hold no longer
  sequences.
\<close>

fun utf8 :: "nat list \<Rightarrow> jstring" where
  "utf8 [] = []"
| "utf8 (b # bs) =
     (if b < 0x80 then b # utf8 bs
      else if 0xC2 \<le> b \<and> b < 0xE0 then
        (case bs of
           [] \<Rightarrow> [0xFFFD]
         | c # cs \<Rightarrow>
             if 0x80 \<le> c \<and> c < 0xC0 then ((b - 0xC0) * 64 + (c - 0x80)) # utf8 cs
             else 0xFFFD # utf8 bs)
      else 0xFFFD # utf8 bs)"

definition sample_runtime :: runtime where
  "sample_runtime = \<lparr>JSON_parse = sample_parse, toString = (\<lambda>data. utf8 (map of_char data))\<rparr>"

subsection \<open>Invariants of a run\<close>

text \<open>
  What holds of the Job object of launch \<open>p\<close> at every moment: its process handle is
  the child of its own launch, and once its status is terminal its end time is present.
\<close>

definition ok_job :: "nat \<Rightarrow> Job \<Rightarrow> bool" where
  "ok_job p j \<longleftrightarrow> process j = Some p \<and> (terminal j \<longrightarrow> endTime j \<noteq> None)"

definition job_invariant :: "server \<Rightarrow> bool" where
  "job_invariant s \<longleftrightarrow> (\<forall>p < length (launches s). ok_job p (job_at s p))"

text \<open>
  Every registry entry holds an existing Job object, and no stdout buffer holds a
  newline between two handler runs.
\<close>

definition well_formed :: "server \<Rightarrow> bool" where
  "well_formed s \<longleftrightarrow>
     (\<forall>a \<in> snd ` set (activeJobs s). a < length (launches s)) \<and>
     (\<forall>l \<in> set (launches s). newline \<notin> set (stdoutBuffer l))"

text \<open>From \<open>s\<close> to \<open>s'\<close> the Job object at \<open>a\<close> survives and its events were only appended to.\<close>

definition grows :: "nat \<Rightarrow> server \<Rightarrow> server \<Rightarrow> bool" where
  "grows a s s' \<longleftrightarrow>
     a < length (launches s') \<and> prefix (events (job_at s a)) (events (job_at s' a))"

text \<open>
  A connection in step with its job: what was sent is the first \<open>eventIndex\<close> events of
  the job, and starts with the events \<open>evs0\<close> present at connect time.
\<close>

definition in_step :: "nat \<Rightarrow> json list \<Rightarrow> server \<times> observer \<Rightarrow> bool" where
  "in_step a evs0 c \<longleftrightarrow>
     a < length (launches (fst c)) \<and>
     prefix evs0 (sent (snd c)) \<and>
     eventIndex (snd c) \<le> length (events (job_at (fst c) a)) \<and>
     sent (snd c) = take (eventIndex (snd c)) (events (job_at (fst c) a))"


section \<open>Properties of the line parser\<close>

lemma split_nl_nonempty: "split_nl s \<noteq> []"
  by (induction s) (auto split: list.splits)


lemma split_nl_cases:
  obtains s1 ss where "split_nl a = s1 # ss"
  using split_nl_nonempty [of a] by (cases "split_nl a") auto

lemma last_split_nl_no_newline: "newline \<notin> set (last (split_nl s))"
proof (induction s)
  case Nil
  then show ?case by simp
next
  case (Cons c s)
  obtain s1 ss where S: "split_nl s = s1 # ss" by (rule split_nl_cases)
  with Cons show ?case by (cases "ss = []") auto
qed


text \<open>The definitions unfolded when a run is evaluated on concrete input.\<close>

lemmas model_defs = run_def post_validate_def triggerBackgroundValidation_def post_sort_def
  tryAcquireValidationLock_def releaseValidationLock_def evict_terminal_def register_job_def
  job_at_def update_launch_def update_job_def on_close_def finish_def parse_trailing_def
  sweep_def sweep_job_def on_error_def init_server_def js_trim_def is_ws_def Let_def
  validate_args_def sort_args_def getActiveValidationJob_def hasActiveValidationJob_def
  on_stdout_data_def on_stdout_text_def on_stderr_data_def process_lines_def process_line_def
  result_key_def newline_def sample_runtime_def sample_parse_def lit_def terminal_def
  started_def conflict_def complete_event_def
  stream_run_def stream_start_def send_new_def poll_def




lemma stdoutBuffer_process_line [simp]:
  "stdoutBuffer (process_line rt key line l) = stdoutBuffer l"
  by (simp add: process_line_def split: option.splits json.splits)

lemma stdoutBuffer_process_lines [simp]:
  "stdoutBuffer (process_lines rt key ls l) = stdoutBuffer l"
  unfolding process_lines_def
  by (induction ls arbitrary: l) simp_all

lemma stdoutBuffer_on_stdout_text:
  "stdoutBuffer (on_stdout_text rt key decoded l) = last (split_nl (stdoutBuffer l @ decoded))"
  by (simp add: on_stdout_text_def Let_def)



lemma stdoutBuffer_on_stdout_data_no_newline:
  "newline \<notin> set (stdoutBuffer (on_stdout_data rt key data l))"
  by (simp add: on_stdout_data_def stdoutBuffer_on_stdout_text last_split_nl_no_newline)




lemma job_type_process_line [simp]:
  "job_type (job (process_line rt key line l)) = job_type (job l)"
  by (simp add: process_line_def split: option.splits json.splits)

lemma job_type_process_lines [simp]:
  "job_type (job (process_lines rt key ls l)) = job_type (job l)"
  unfolding process_lines_def
  by (induction ls arbitrary: l) simp_all

lemma job_type_on_stdout_data [simp]:
  "job_type (job (on_stdout_data rt key data l)) = job_type (job l)"
  by (simp add: on_stdout_data_def on_stdout_text_def Let_def)

lemma job_type_feed [simp]:
  "job_type (job (feed rt key chunks l)) = job_type (job l)"
  unfolding feed_def
  by (induction chunks arbitrary: l) simp_all

lemma length_update_launch [simp]:
  "length (launches (update_launch a f s)) = length (launches s)"
  by (simp add: update_launch_def)

lemma nth_update_launch:
  "launches (update_launch a f s) ! q =
     (if q = a \<and> a < length (launches s) then f (launches s ! a) else launches s ! q)"
  by (simp add: update_launch_def)



lemma update_launch_cong:
  "(a < length (launches s) \<Longrightarrow> f (launches s ! a) = g (launches s ! a)) \<Longrightarrow>
   update_launch a f s = update_launch a g s"
  by (simp add: update_launch_def)


lemma run_append: "run rt (xs @ ys) s = run rt ys (run rt xs s)"
  by (simp add: run_def)





section \<open>What the handlers preserve\<close>

lemma process_line_job:
  "\<exists>evs. job (process_line rt key line l) = (job l)\<lparr>events := events (job l) @ evs\<rparr>"
proof (cases "job (process_line rt key line l) = job l")
  case True
  then have "job (process_line rt key line l) = (job l)\<lparr>events := events (job l) @ []\<rparr>"
    by simp
  then show ?thesis by blast
next
  case False
  then obtain v where "job (process_line rt key line l) = (job l)\<lparr>events := events (job l) @ [v]\<rparr>"
    by (auto simp: process_line_def split: option.splits json.splits if_splits)
  then show ?thesis by blast
qed

lemma process_lines_job:
  "\<exists>evs. job (process_lines rt key ls l) = (job l)\<lparr>events := events (job l) @ evs\<rparr>"
proof (induction ls arbitrary: l)
  case Nil
  have "job (process_lines rt key [] l) = (job l)\<lparr>events := events (job l) @ []\<rparr>"
    by (simp add: process_lines_def)
  then show ?case by blast
next
  case (Cons x xs)
  obtain e1 where e1: "job (process_line rt key x l) = (job l)\<lparr>events := events (job l) @ e1\<rparr>"
    using process_line_job by blast
  obtain e2 where e2: "job (process_lines rt key xs (process_line rt key x l))
      = (job (process_line rt key x l))\<lparr>events := events (job (process_line rt key x l)) @ e2\<rparr>"
    using Cons.IH by blast
  have "job (process_lines rt key (x # xs) l) = (job l)\<lparr>events := events (job l) @ (e1 @ e2)\<rparr>"
    using e2 by (simp add: process_lines_def e1)
  then show ?case by blast
qed

lemma on_stdout_data_job:
  "\<exists>evs. job (on_stdout_data rt key data l) = (job l)\<lparr>events := events (job l) @ evs\<rparr>"
  using process_lines_job
    [of rt key _ "l\<lparr>stdoutBuffer := last (split_nl (stdoutBuffer l @ toString rt data))\<rparr>"]
  by (simp add: on_stdout_data_def on_stdout_text_def Let_def)

lemma status_on_stdout_data [simp]:
  "status (job (on_stdout_data rt key data l)) = status (job l)"
  using on_stdout_data_job [of rt key data l] by auto

lemma process_line_unparsable:
  "JSON_parse rt line = None \<Longrightarrow> process_line rt key line l = l"
  by (simp add: process_line_def)

lemma process_lines_unparsable:
  "\<forall>line \<in> set ls. JSON_parse rt line = None \<Longrightarrow> process_lines rt key ls l = l"
  unfolding process_lines_def
  by (induction ls arbitrary: l) (simp_all add: process_line_unparsable)

text \<open>A chunk that completes nothing but unparsable lines only moves the buffer on.\<close>

lemma noise_only_chunk:
  assumes "\<forall>line \<in> set (butlast (split_nl (stdoutBuffer (launches s ! p) @ toString rt data))).
             JSON_parse rt line = None"
  shows "job_at (step rt (StdoutData p data) s) q = job_at s q
       \<and> finalResult (launches (step rt (StdoutData p data) s) ! q) = finalResult (launches s ! q)
       \<and> stderrBuffer (launches (step rt (StdoutData p data) s) ! q) = stderrBuffer (launches s ! q)
       \<and> validationLock (step rt (StdoutData p data) s) = validationLock s
       \<and> activeJobs (step rt (StdoutData p data) s) = activeJobs s
       \<and> released (step rt (StdoutData p data) s) = released s"
  using assms
  by (simp add: job_at_def nth_update_launch on_stdout_data_def on_stdout_text_def Let_def
        process_lines_unparsable)
     (simp add: update_launch_def)

text \<open>
  Claim C8. A stdout line that fails to parse as JSON leaves the launch, and with it the
  Job, exactly as it was: nothing is appended to the events, the status and the captured
  final result stay. This holds for the line wherever it stands in a chunk, also beside
  lines that do parse: if the lines completed by a chunk are \<open>pre\<close>, the unparsable
  line, then \<open>post\<close>, the handler leaves the server in the state it reaches by processing
  \<open>pre\<close> and \<open>post\<close> alone. And whatever a chunk holds, the stdout handler never changes
  the status of any Job, so a parse failure is never turned into a Job error.
\<close>

theorem unparsable_lines_ignored:
  assumes "JSON_parse rt line = None"
  shows "process_line rt key line l = l
       \<and> (butlast (split_nl (stdoutBuffer (launches s ! p) @ toString rt data))
            = pre @ line # post \<longrightarrow>
          step rt (StdoutData p data) s =
          update_launch p
            (\<lambda>l. process_lines rt (result_key (job_type (job l))) (pre @ post)
                    (l\<lparr>stdoutBuffer := last (split_nl (stdoutBuffer l @ toString rt data))\<rparr>))
            s)
       \<and> status (job_at (step rt (StdoutData p data) s) q) = status (job_at s q)"
proof -
  have one: "process_line rt k line l' = l'" for k l'
    using assms by (rule process_line_unparsable)
  have skip: "process_lines rt k (pre @ line # post) l' = process_lines rt k (pre @ post) l'"
    for k l'
    by (simp add: process_lines_def one)
  have chunk: "step rt (StdoutData p data) s =
          update_launch p
            (\<lambda>l. process_lines rt (result_key (job_type (job l))) (pre @ post)
                    (l\<lparr>stdoutBuffer := last (split_nl (stdoutBuffer l @ toString rt data))\<rparr>))
            s"
    if lines: "butlast (split_nl (stdoutBuffer (launches s ! p) @ toString rt data))
               = pre @ line # post"
    unfolding step.simps
    by (rule update_launch_cong)
       (simp add: on_stdout_data_def on_stdout_text_def Let_def lines skip)
  have st: "status (job_at (step rt (StdoutData p data) s) q) = status (job_at s q)"
    by (simp add: job_at_def nth_update_launch)
  from one chunk st show ?thesis by blast
qed

theorem unparsable_lines_ignored_witness:
  "JSON_parse sample_runtime (lit ''Validating folder names...'') = None
   \<and> butlast (split_nl (stdoutBuffer
         (launches (run sample_runtime [PostValidate (Some ''full'') 0] init_server) ! 0)
       @ toString sample_runtime
          (''{\"type\":\"progress\",\"stage\":\"folder-names\",\"percent\":50}'' @ [CHR 0x0A]
           @ ''Validating folder names...'' @ [CHR 0x0A]
           @ ''{\"errors\":[],\"error_count\":0,\"is_valid\":true}'' @ [CHR 0x0A])))
     = [lit ''{\"type\":\"progress\",\"stage\":\"folder-names\",\"percent\":50}'']
       @ lit ''Validating folder names...''
       # [lit ''{\"errors\":[],\"error_count\":0,\"is_valid\":true}'']
   \<and> step sample_runtime
       (StdoutData 0
          (''{\"type\":\"progress\",\"stage\":\"folder-names\",\"percent\":50}'' @ [CHR 0x0A]
           @ ''Validating folder names...'' @ [CHR 0x0A]
           @ ''{\"errors\":[],\"error_count\":0,\"is_valid\":true}'' @ [CHR 0x0A]))
       (run sample_runtime [PostValidate (Some ''full'') 0] init_server)
     = step sample_runtime
       (StdoutData 0
          (''{\"type\":\"progress\",\"stage\":\"folder-names\",\"percent\":50}'' @ [CHR 0x0A]
           @ ''{\"errors\":[],\"error_count\":0,\"is_valid\":true}'' @ [CHR 0x0A]))
       (run sample_runtime [PostValidate (Some ''full'') 0] init_server)
   \<and> events (job_at (step sample_runtime
       (StdoutData 0
          (''{\"type\":\"progress\",\"stage\":\"folder-names\",\"percent\":50}'' @ [CHR 0x0A]
           @ ''Validating folder names...'' @ [CHR 0x0A]
           @ ''{\"errors\":[],\"error_count\":0,\"is_valid\":true}'' @ [CHR 0x0A]))
       (run sample_runtime [PostValidate (Some ''full'') 0] init_server)) 0)
     = [JObj [(''type'', JStr (lit ''progress'')), (''stage'', JStr (lit ''folder-names'')),
              (''percent'', JNum 50)]]
   \<and> status (job_at (step sample_runtime
       (StdoutData 0
          (''{\"type\":\"progress\",\"stage\":\"folder-names\",\"percent\":50}'' @ [CHR 0x0A]
           @ ''Validating folder names...'' @ [CHR 0x0A]
           @ ''{\"errors\":[],\"error_count\":0,\"is_valid\":true}'' @ [CHR 0x0A]))
       (run sample_runtime [PostValidate (Some ''full'') 0] init_server)) 0) = Running"
proof -
  let ?s = "run sample_runtime [PostValidate (Some ''full'') 0] init_server"
  let ?noisy = "''{\"type\":\"progress\",\"stage\":\"folder-names\",\"percent\":50}'' @ [CHR 0x0A]
           @ ''Validating folder names...'' @ [CHR 0x0A]
           @ ''{\"errors\":[],\"error_count\":0,\"is_valid\":true}'' @ [CHR 0x0A]"
  let ?clean = "''{\"type\":\"progress\",\"stage\":\"folder-names\",\"percent\":50}'' @ [CHR 0x0A]
           @ ''{\"errors\":[],\"error_count\":0,\"is_valid\":true}'' @ [CHR 0x0A]"
  let ?pre = "[lit ''{\"type\":\"progress\",\"stage\":\"folder-names\",\"percent\":50}'']"
  let ?line = "lit ''Validating folder names...''"
  let ?post = "[lit ''{\"errors\":[],\"error_count\":0,\"is_valid\":true}'']"
  have np: "JSON_parse sample_runtime ?line = None"
    by (simp add: sample_runtime_def sample_parse_def lit_def)
  have ls: "butlast (split_nl (stdoutBuffer (launches ?s ! 0) @ toString sample_runtime ?noisy))
            = ?pre @ ?line # ?post"
    by (simp add: model_defs)
  have noisy: "step sample_runtime (StdoutData 0 ?noisy) ?s =
          update_launch 0
            (\<lambda>l. process_lines sample_runtime (result_key (job_type (job l))) (?pre @ ?post)
                    (l\<lparr>stdoutBuffer :=
                         last (split_nl (stdoutBuffer l @ toString sample_runtime ?noisy))\<rparr>))
            ?s"
    and st: "status (job_at (step sample_runtime (StdoutData 0 ?noisy) ?s) 0)
             = status (job_at ?s 0)"
    using unparsable_lines_ignored [OF np, where s = ?s and p = 0 and data = ?noisy
        and pre = ?pre and post = ?post and q = 0] ls
    by blast+
  have clean: "step sample_runtime (StdoutData 0 ?clean) ?s =
          update_launch 0
            (\<lambda>l. process_lines sample_runtime (result_key (job_type (job l))) (?pre @ ?post)
                    (l\<lparr>stdoutBuffer :=
                         last (split_nl (stdoutBuffer l @ toString sample_runtime ?noisy))\<rparr>))
            ?s"
    by (simp add: model_defs)
  have same: "step sample_runtime (StdoutData 0 ?noisy) ?s
              = step sample_runtime (StdoutData 0 ?clean) ?s"
    using noisy clean by (rule trans [OF _ sym])
  have ev: "events (job_at (step sample_runtime (StdoutData 0 ?clean) ?s) 0)
     = [JObj [(''type'', JStr (lit ''progress'')), (''stage'', JStr (lit ''folder-names'')),
              (''percent'', JNum 50)]]"
    by (simp add: model_defs)
  have r: "status (job_at ?s 0) = Running" by (simp add: model_defs)
  from np ls same ev [folded same] st [unfolded r] show ?thesis by (simp only: simp_thms)
qed

lemma ok_job_events [simp]: "ok_job p (j\<lparr>events := evs\<rparr>) = ok_job p j"
  by (simp add: ok_job_def terminal_def)




lemma job_invariant_cong:
  "launches s' = launches s \<Longrightarrow> job_invariant s' = job_invariant s"
  by (simp add: job_invariant_def job_at_def)

lemma launches_release [simp]: "launches (releaseValidationLock w s) = launches s"
  by (simp add: releaseValidationLock_def)

lemma launches_evict [simp]: "launches (evict_terminal jobId s) = launches s"
  by (simp add: evict_terminal_def split: option.splits)

lemma launches_register:
  "launches (register_job jobId t now as s) = launches s @
     [\<lparr>job = \<lparr>job_id = jobId, job_type = t, startTime = now, status = Running,
               events = [], process = Some (length (launches s)), result = None, endTime = None\<rparr>,
       args = as, stdoutBuffer = [], stderrBuffer = [], finalResult = JNull\<rparr>]"
  by (simp add: register_job_def Let_def)


lemma job_invariant_release [simp]:
  "job_invariant (releaseValidationLock w s) = job_invariant s"
  by (rule job_invariant_cong) simp

lemma job_invariant_evict [simp]:
  "job_invariant (evict_terminal jobId s) = job_invariant s"
  by (rule job_invariant_cong) simp

lemma job_invariant_lock [simp]:
  "job_invariant (s\<lparr>validationLock := b\<rparr>) = job_invariant s"
  by (rule job_invariant_cong) simp

lemma job_invariant_registry [simp]:
  "job_invariant (s\<lparr>activeJobs := r\<rparr>) = job_invariant s"
  by (rule job_invariant_cong) simp










section \<open>Events are only appended\<close>

lemma grows_refl: "a < length (launches s) \<Longrightarrow> grows a s s"
  by (simp add: grows_def)

lemma grows_trans: "grows a s s' \<Longrightarrow> grows a s' s'' \<Longrightarrow> grows a s s''"
  by (auto simp: grows_def)

lemma grows_cong: "launches s' = launches s \<Longrightarrow> a < length (launches s) \<Longrightarrow> grows a s s'"
  by (simp add: grows_def job_at_def)

lemma grows_update_launch:
  assumes "a < length (launches s)"
    and "\<And>l. prefix (events (job l)) (events (job (f l)))"
  shows "grows a s (update_launch b f s)"
  using assms by (simp add: grows_def job_at_def nth_update_launch)

lemma grows_update_job:
  assumes "a < length (launches s)"
    and "\<And>j. prefix (events j) (events (f j))"
  shows "grows a s (update_job b f s)"
  unfolding update_job_def using assms by (intro grows_update_launch) simp_all

lemma grows_register:
  "a < length (launches s) \<Longrightarrow> grows a s (register_job jobId t now as s)"
  by (simp add: grows_def job_at_def launches_register nth_append)

lemma prefix_on_stdout_data:
  "prefix (events (job l)) (events (job (on_stdout_data rt key data l)))"
  using on_stdout_data_job [of rt key data l] by auto

lemma prefix_finish:
  "prefix (events (job l)) (events (job (finish code now (parse_trailing rt l))))"
  by (simp add: finish_def parse_trailing_def Let_def split: option.splits)

lemma grows_sweep_job:
  assumes "a < length (launches s)"
  shows "grows a s (sweep_job now e s)"
proof -
  let ?s1 = "case endTime (job_at s (snd e)) of None \<Rightarrow> s
     | Some t \<Rightarrow> if t \<noteq> 0 \<and> now - t > 5 * 60 * 1000
          then s\<lparr>activeJobs := AList.delete (fst e) (activeJobs s)\<rparr> else s"
  have l1: "launches ?s1 = launches s" by (simp split: option.splits)
  then have g1: "grows a s ?s1" using assms by (rule grows_cong)
  have a1: "a < length (launches ?s1)" using l1 assms by simp
  have g2: "grows a ?s1 (update_job (snd e) (\<lambda>j. j\<lparr>status := Error,
               events := events j @ [timeout_event], endTime := Some now\<rparr>) ?s1)"
    using a1 by (rule grows_update_job) simp
  have g3: "grows a ?s1 (releaseValidationLock (Some (snd e)) (update_job (snd e) (\<lambda>j. j\<lparr>status := Error,
               events := events j @ [timeout_event], endTime := Some now\<rparr>) ?s1))"
    using g2 by (simp add: grows_def job_at_def)
  show ?thesis
    unfolding sweep_job_def Let_def
    using g1 g2 g3 grows_trans by presburger
qed

lemma grows_sweep_entries:
  "a < length (launches s) \<Longrightarrow> grows a s (foldl (\<lambda>s entry. sweep_job now entry s) s es)"
proof (induction es arbitrary: s)
  case Nil
  then show ?case by (simp add: grows_refl)
next
  case (Cons e es)
  have g: "grows a s (sweep_job now e s)" using Cons.prems by (rule grows_sweep_job)
  then have "a < length (launches (sweep_job now e s))" by (simp add: grows_def)
  then have "grows a (sweep_job now e s) (foldl (\<lambda>s entry. sweep_job now entry s) (sweep_job now e s) es)"
    by (rule Cons.IH)
  with g show ?case by (simp add: grows_trans)
qed

lemma grows_step:
  assumes "a < length (launches s)"
  shows "grows a s (step rt act s)"
proof (cases act)
  case (PostValidate body now)
  have "grows a (evict_terminal ''validation-current'' (s\<lparr>validationLock := True\<rparr>))
      (register_job ''validation-current'' Validation now as
         (evict_terminal ''validation-current'' (s\<lparr>validationLock := True\<rparr>)))" for as
    using assms by (intro grows_register) simp
  then show ?thesis using assms PostValidate
    by (auto simp: post_validate_def tryAcquireValidationLock_def grows_def job_at_def
        split: option.splits)
next
  case (TriggerBackground now)
  have "grows a (evict_terminal ''validation-current'' (s\<lparr>validationLock := True\<rparr>))
      (register_job ''validation-current'' Validation now as
         (evict_terminal ''validation-current'' (s\<lparr>validationLock := True\<rparr>)))" for as
    using assms by (intro grows_register) simp
  then show ?thesis using assms TriggerBackground
    by (auto simp: triggerBackgroundValidation_def tryAcquireValidationLock_def grows_def job_at_def)
next
  case (PostSort uuid body now)
  then show ?thesis using assms grows_register [OF assms]
    by (auto simp: post_sort_def grows_refl split: option.splits)
next
  case (StdoutData p data)
  then show ?thesis using assms
    by (simp add: grows_update_launch prefix_on_stdout_data)
next
  case (StderrData p data)
  then show ?thesis using assms
    by (simp add: grows_update_launch on_stderr_data_def)
next
  case (ProcessError p msg now)
  have "grows a s (update_job p (\<lambda>j. j\<lparr>status := Error,
          events := events j @ [spawn_error_event msg], endTime := Some now\<rparr>) s)"
    using assms by (rule grows_update_job) simp
  then show ?thesis using assms ProcessError
    by (auto simp: on_error_def grows_def job_at_def)
next
  case (ProcessClose p code now)
  have "grows a s (update_launch p (\<lambda>l. finish code now (parse_trailing rt l)) s)"
    using assms by (rule grows_update_launch) (rule prefix_finish)
  then show ?thesis using assms ProcessClose
    by (auto simp: on_close_def Let_def grows_def job_at_def)
next
  case (CleanupTick now)
  then show ?thesis using assms by (simp add: sweep_def grows_sweep_entries)
qed

section \<open>The progress stream\<close>

lemma prefix_take_D: "prefix xs (take n ys) \<Longrightarrow> prefix xs ys"
  using take_is_prefix [of n ys] by (rule prefix_order.trans [rotated])

lemma in_step_stream_step:
  assumes "in_step a evs0 c"
  shows "in_step a evs0 (stream_step rt a x c)"
proof (cases c)
  case (Pair s ob)
  show ?thesis
  proof (cases x)
    case (Server act)
    from assms Pair have a: "a < length (launches s)" by (simp add: in_step_def)
    from grows_step [OF a, of rt act]
    obtain more where more: "events (job_at (step rt act s) a) = events (job_at s a) @ more"
      and len: "a < length (launches (step rt act s))"
      by (auto simp: grows_def prefix_def)
    from assms [unfolded in_step_def Pair fst_conv snd_conv]
    have p0: "prefix evs0 (sent ob)"
      and le: "eventIndex ob \<le> length (events (job_at s a))"
      and se: "sent ob = take (eventIndex ob) (events (job_at s a))"
      by blast+
    have "sent ob = take (eventIndex ob) (events (job_at (step rt act s) a))"
      using se le by (simp add: more)
    moreover have "eventIndex ob \<le> length (events (job_at (step rt act s) a))"
      using le by (simp add: more)
    ultimately show ?thesis using len p0
      unfolding in_step_def Pair Server stream_step.simps fst_conv snd_conv by blast
  next
    case PollTick
    show ?thesis using assms Pair PollTick
      by (auto simp: in_step_def poll_def send_new_def Let_def dest: prefix_take_D)
  qed
qed

lemma in_step_stream_run:
  "in_step a evs0 c \<Longrightarrow> in_step a evs0 (stream_run rt a acts c)"
  unfolding stream_run_def
  by (induction acts arbitrary: c) (simp_all add: in_step_stream_step)

lemma in_step_start:
  "a < length (launches s) \<Longrightarrow> in_step a (events (job_at s a)) (s, stream_start (job_at s a))"
  by (simp add: in_step_def stream_start_def send_new_def Let_def)

lemma not_polling_stream_step:
  "\<not> polling (snd c) \<Longrightarrow> snd (stream_step rt a x c) = snd c"
  by (cases c; cases x) (simp_all add: poll_def)

lemma not_polling_stream_run:
  "\<not> polling (snd c) \<Longrightarrow> snd (stream_run rt a acts c) = snd c"
  unfolding stream_run_def
  by (induction acts arbitrary: c) (simp_all add: not_polling_stream_step)

text \<open>
  Claim C6. Connecting to the stream of a registered job sends every event the job
  already has, in order, before anything else. Whatever the server and the polling
  interval do afterwards, those events stay the beginning of what the observer receives,
  and what it receives is a beginning of the job's event sequence. If the job is
  terminal at connect time the stream is closed at once, no interval is set, and nothing
  is ever sent after the replay.
\<close>

theorem late_subscriber_replay:
  assumes "map_of (activeJobs s) jobId = Some a"
    and "a < length (launches s)"
  shows "fst (stream_GET jobId s) = EventStream a (stream_start (job_at s a))
       \<and> sent (stream_start (job_at s a)) = events (job_at s a)
       \<and> prefix (events (job_at s a))
            (sent (snd (stream_run rt a acts (s, stream_start (job_at s a)))))
       \<and> prefix (sent (snd (stream_run rt a acts (s, stream_start (job_at s a)))))
            (events (job_at (fst (stream_run rt a acts (s, stream_start (job_at s a)))) a))
       \<and> (terminal (job_at s a) \<longrightarrow>
            closed (stream_start (job_at s a)) \<and> \<not> polling (stream_start (job_at s a))
            \<and> snd (stream_run rt a acts (s, stream_start (job_at s a)))
                = stream_start (job_at s a))"
proof -
  let ?ob = "stream_start (job_at s a)"
  have inv: "in_step a (events (job_at s a)) (stream_run rt a acts (s, ?ob))"
    using assms(2) by (intro in_step_stream_run in_step_start)
  have 1: "fst (stream_GET jobId s) = EventStream a ?ob"
    using assms(1) by (simp add: stream_GET_def)
  have 2: "sent ?ob = events (job_at s a)"
    by (simp add: stream_start_def send_new_def Let_def)
  have 3: "prefix (events (job_at s a)) (sent (snd (stream_run rt a acts (s, ?ob))))"
    using inv unfolding in_step_def by blast
  have 4: "prefix (sent (snd (stream_run rt a acts (s, ?ob))))
            (events (job_at (fst (stream_run rt a acts (s, ?ob))) a))"
    using inv unfolding in_step_def by (metis take_is_prefix)
  have 5: "terminal (job_at s a) \<longrightarrow> closed ?ob \<and> \<not> polling ?ob
            \<and> snd (stream_run rt a acts (s, ?ob)) = ?ob"
  proof
    assume t: "terminal (job_at s a)"
    then have np: "\<not> polling ?ob" and cl: "closed ?ob"
      by (auto simp: stream_start_def send_new_def Let_def terminal_def)
    from np have "snd (stream_run rt a acts (s, ?ob)) = ?ob"
      using not_polling_stream_run [of "(s, ?ob)" rt a acts] by simp
    with np cl show "closed ?ob \<and> \<not> polling ?ob \<and> snd (stream_run rt a acts (s, ?ob)) = ?ob"
      by simp
  qed
  from 1 2 3 4 5 show ?thesis by blast
qed

theorem late_subscriber_replay_witness:
  "map_of (activeJobs (run sample_runtime [PostValidate (Some ''full'') 0,
          StdoutData 0 (''{\"type\":\"progress\",\"stage\":\"folder-names\",\"percent\":50}''
                        @ [CHR 0x0A])] init_server)) ''validation-current'' = Some 0
   \<and> 0 < length (launches (run sample_runtime [PostValidate (Some ''full'') 0,
          StdoutData 0 (''{\"type\":\"progress\",\"stage\":\"folder-names\",\"percent\":50}''
                        @ [CHR 0x0A])] init_server))
   \<and> sent (stream_start (job_at (run sample_runtime [PostValidate (Some ''full'') 0,
          StdoutData 0 (''{\"type\":\"progress\",\"stage\":\"folder-names\",\"percent\":50}''
                        @ [CHR 0x0A])] init_server) 0))
     = [JObj [(''type'', JStr (lit ''progress'')), (''stage'', JStr (lit ''folder-names'')),
              (''percent'', JNum 50)]]
   \<and> sent (snd (stream_run sample_runtime 0 [Server (ProcessClose 0 (Some 0) 5000), PollTick]
      (run sample_runtime [PostValidate (Some ''full'') 0,
          StdoutData 0 (''{\"type\":\"progress\",\"stage\":\"folder-names\",\"percent\":50}''
                        @ [CHR 0x0A])] init_server,
       stream_start (job_at (run sample_runtime [PostValidate (Some ''full'') 0,
          StdoutData 0 (''{\"type\":\"progress\",\"stage\":\"folder-names\",\"percent\":50}''
                        @ [CHR 0x0A])] init_server) 0))))
     = [JObj [(''type'', JStr (lit ''progress'')), (''stage'', JStr (lit ''folder-names'')),
              (''percent'', JNum 50)],
        complete_event JNull]
   \<and> map_of (activeJobs (run sample_runtime
        [PostValidate (Some ''full'') 0, ProcessClose 0 (Some 0) 5000] init_server))
        ''validation-current'' = Some 0
   \<and> terminal (job_at (run sample_runtime
        [PostValidate (Some ''full'') 0, ProcessClose 0 (Some 0) 5000] init_server) 0)
   \<and> closed (stream_start (job_at (run sample_runtime
        [PostValidate (Some ''full'') 0, ProcessClose 0 (Some 0) 5000] init_server) 0))
   \<and> \<not> polling (stream_start (job_at (run sample_runtime
        [PostValidate (Some ''full'') 0, ProcessClose 0 (Some 0) 5000] init_server) 0))
   \<and> snd (stream_run sample_runtime 0 [PollTick, PollTick]
        (run sample_runtime
           [PostValidate (Some ''full'') 0, ProcessClose 0 (Some 0) 5000] init_server,
         stream_start (job_at (run sample_runtime
           [PostValidate (Some ''full'') 0, ProcessClose 0 (Some 0) 5000] init_server) 0)))
     = stream_start (job_at (run sample_runtime
        [PostValidate (Some ''full'') 0, ProcessClose 0 (Some 0) 5000] init_server) 0)"
proof -
  let ?s = "run sample_runtime [PostValidate (Some ''full'') 0,
          StdoutData 0 (''{\"type\":\"progress\",\"stage\":\"folder-names\",\"percent\":50}''
                        @ [CHR 0x0A])] init_server"
  let ?t = "run sample_runtime
        [PostValidate (Some ''full'') 0, ProcessClose 0 (Some 0) 5000] init_server"
  have rs: "map_of (activeJobs ?s) ''validation-current'' = Some 0" by (simp add: model_defs)
  have ls: "0 < length (launches ?s)" by (simp add: model_defs)
  have es: "events (job_at ?s 0)
     = [JObj [(''type'', JStr (lit ''progress'')), (''stage'', JStr (lit ''folder-names'')),
              (''percent'', JNum 50)]]"
    by (simp add: model_defs)
  have rt: "map_of (activeJobs ?t) ''validation-current'' = Some 0" by (simp add: model_defs)
  have lt: "0 < length (launches ?t)" by (simp add: model_defs)
  have tt: "terminal (job_at ?t 0)" by (simp add: model_defs)
  have later: "sent (snd (stream_run sample_runtime 0
        [Server (ProcessClose 0 (Some 0) 5000), PollTick] (?s, stream_start (job_at ?s 0))))
     = [JObj [(''type'', JStr (lit ''progress'')), (''stage'', JStr (lit ''folder-names'')),
              (''percent'', JNum 50)],
        complete_event JNull]"
    by (simp add: model_defs)
  have first: "sent (stream_start (job_at ?s 0)) = events (job_at ?s 0)"
    using late_subscriber_replay [OF rs ls, where rt = sample_runtime
        and acts = "[Server (ProcessClose 0 (Some 0) 5000), PollTick]"]
    by blast
  have fin: "closed (stream_start (job_at ?t 0)) \<and> \<not> polling (stream_start (job_at ?t 0))
      \<and> snd (stream_run sample_runtime 0 [PollTick, PollTick] (?t, stream_start (job_at ?t 0)))
          = stream_start (job_at ?t 0)"
    using late_subscriber_replay [OF rt lt, where rt = sample_runtime
        and acts = "[PollTick, PollTick]"] tt
    by blast
  from rs ls first [unfolded es] later rt tt fin show ?thesis by (simp only: simp_thms)
qed

section \<open>Registry entries and buffers stay well formed\<close>

lemma set_alist_update: "set (AList.update k v al) \<subseteq> insert (k, v) (set al)"
  by (induction al) auto

lemma set_alist_delete: "set (AList.delete k al) \<subseteq> set al"
  by (auto simp: AList.delete_eq)

lemma well_formed_registry_subset:
  "well_formed s \<Longrightarrow> set r \<subseteq> set (activeJobs s) \<Longrightarrow> well_formed (s\<lparr>activeJobs := r\<rparr>)"
  by (auto simp: well_formed_def)

lemma well_formed_lock [simp]: "well_formed (s\<lparr>validationLock := b\<rparr>) = well_formed s"
  by (simp add: well_formed_def)

lemma well_formed_release [simp]: "well_formed (releaseValidationLock w s) = well_formed s"
  by (simp add: well_formed_def releaseValidationLock_def)

lemma well_formed_evict: "well_formed s \<Longrightarrow> well_formed (evict_terminal jobId s)"
  by (auto simp: evict_terminal_def set_alist_delete well_formed_registry_subset split: option.splits)

lemma well_formed_register: "well_formed s \<Longrightarrow> well_formed (register_job jobId t now as s)"
  using set_alist_update [of jobId "length (launches s)" "activeJobs s"]
  by (fastforce simp: well_formed_def register_job_def Let_def less_Suc_eq)

lemma well_formed_update_launch:
  assumes "well_formed s"
    and "\<And>l. newline \<notin> set (stdoutBuffer l) \<Longrightarrow> newline \<notin> set (stdoutBuffer (f l))"
  shows "well_formed (update_launch a f s)"
  using assms
  by (auto simp: well_formed_def update_launch_def set_conv_nth nth_list_update)

lemma well_formed_update_job: "well_formed s \<Longrightarrow> well_formed (update_job a f s)"
  unfolding update_job_def by (rule well_formed_update_launch) simp_all

lemma well_formed_sweep_job: "well_formed s \<Longrightarrow> well_formed (sweep_job now e s)"
  by (auto simp: sweep_job_def Let_def set_alist_delete well_formed_registry_subset
      well_formed_update_job split: option.splits)

lemma well_formed_sweep_entries:
  "well_formed s \<Longrightarrow> well_formed (foldl (\<lambda>s entry. sweep_job now entry s) s es)"
  by (induction es arbitrary: s) (simp_all add: well_formed_sweep_job)

lemma well_formed_step:
  assumes "well_formed s"
  shows "well_formed (step rt act s)"
proof (cases act)
  case (PostValidate body now)
  with assms show ?thesis
    by (auto simp: post_validate_def tryAcquireValidationLock_def well_formed_register
        well_formed_evict split: option.splits)
next
  case (TriggerBackground now)
  with assms show ?thesis
    by (auto simp: triggerBackgroundValidation_def tryAcquireValidationLock_def
        well_formed_register well_formed_evict)
next
  case (PostSort uuid body now)
  with assms show ?thesis
    by (auto simp: post_sort_def well_formed_register split: option.splits)
next
  case (StdoutData p data)
  with assms show ?thesis
    by (simp add: well_formed_update_launch stdoutBuffer_on_stdout_data_no_newline)
next
  case (StderrData p data)
  with assms show ?thesis
    by (simp add: well_formed_update_launch on_stderr_data_def)
next
  case (ProcessError p msg now)
  with assms show ?thesis
    by (simp add: on_error_def well_formed_update_job)
next
  case (ProcessClose p code now)
  with assms show ?thesis
    by (simp add: on_close_def Let_def well_formed_update_launch finish_def parse_trailing_def
        split: option.splits)
next
  case (CleanupTick now)
  with assms show ?thesis
    by (simp add: sweep_def well_formed_sweep_entries)
qed

lemma well_formed_init: "well_formed init_server"
  by (simp add: well_formed_def init_server_def)

lemma well_formed_run_from: "well_formed s \<Longrightarrow> well_formed (run rt acts s)"
  by (induction acts arbitrary: s) (simp_all add: run_def well_formed_step)

lemma well_formed_run: "well_formed (run rt acts init_server)"
  using well_formed_init by (rule well_formed_run_from)

lemma registered_job_exists:
  "map_of (activeJobs (run rt acts init_server)) jobId = Some a \<Longrightarrow>
   a < length (launches (run rt acts init_server))"
  using well_formed_run [of rt acts]
  by (force simp: well_formed_def dest: map_of_SomeD)

lemma buffer_has_no_newline:
  "p < length (launches (run rt acts init_server)) \<Longrightarrow>
   newline \<notin> set (stdoutBuffer (launches (run rt acts init_server) ! p))"
  using well_formed_run [of rt acts]
  by (simp add: well_formed_def)

section \<open>The close handler and the unknown job\<close>

text \<open>
  What the close handler does with the exit code of a launched job, validation or sort:
  with 0 or 1 the job becomes complete and its result is the final result captured so
  far, after the trailing buffer was tried; with any other code the job becomes error.
\<close>

lemma exit_code_mapping:
  assumes "p < length (launches s)"
  shows "(code = Some 0 \<or> code = Some 1 \<longrightarrow>
            status (job_at (step rt (ProcessClose p code now) s) p) = Complete
          \<and> result (job_at (step rt (ProcessClose p code now) s) p)
              = Some (finalResult (parse_trailing rt (launches s ! p))))
       \<and> (code \<noteq> Some 0 \<and> code \<noteq> Some 1 \<longrightarrow>
            status (job_at (step rt (ProcessClose p code now) s) p) = Error)"
  using assms
  by (simp add: on_close_def Let_def job_at_def nth_update_launch finish_def)

text \<open>
  Claim C2, evaluated on the code. The handler attaches the captured final result
  without testing that one was captured. A validation child that prints nothing on its
  standard output and exits with code 1 leaves a job that is complete with the result
  \<^verbatim>\<open>null\<close>, and the complete event sent to the observers carries \<^verbatim>\<open>null\<close> as well.
\<close>

theorem complete_with_null_result:
  "status (job_at (run sample_runtime
        [PostValidate (Some ''full'') 0, ProcessClose 0 (Some 1) 5000] init_server) 0) = Complete
   \<and> result (job_at (run sample_runtime
        [PostValidate (Some ''full'') 0, ProcessClose 0 (Some 1) 5000] init_server) 0) = Some JNull
   \<and> events (job_at (run sample_runtime
        [PostValidate (Some ''full'') 0, ProcessClose 0 (Some 1) 5000] init_server) 0)
     = [JObj [(''type'', JStr (lit ''complete'')), (''result'', JNull)]]"
  by (simp add: model_defs)

text \<open>
  Claim C7, as amended. On close the trailing buffer is tried whenever it is not blank,
  whether or not a final result was captured from the stream: if its trimmed text
  parses, the parsed value becomes the final result; if the buffer is blank or does not
  parse, the final result captured before is kept.
\<close>

theorem trailing_buffer_on_close:
  assumes "p < length (launches s)"
  shows "finalResult (launches (step rt (ProcessClose p code now) s) ! p) =
     (if js_trim (stdoutBuffer (launches s ! p)) = [] then finalResult (launches s ! p)
      else case JSON_parse rt (js_trim (stdoutBuffer (launches s ! p))) of
             Some v \<Rightarrow> v
           | None \<Rightarrow> finalResult (launches s ! p))"
  using assms
  by (simp add: on_close_def Let_def nth_update_launch finish_def parse_trailing_def
      split: option.splits)

theorem trailing_buffer_on_close_witness:
  "0 < length (launches (run sample_runtime
        [TriggerBackground 0,
         StdoutData 0 ''{\"errors\":[],\"error_count\":0,\"is_valid\":true}''] init_server))
   \<and> finalResult (launches (run sample_runtime
        [TriggerBackground 0,
         StdoutData 0 ''{\"errors\":[],\"error_count\":0,\"is_valid\":true}''] init_server) ! 0)
     = JNull
   \<and> finalResult (launches (step sample_runtime (ProcessClose 0 (Some 0) 5000)
      (run sample_runtime
        [TriggerBackground 0,
         StdoutData 0 ''{\"errors\":[],\"error_count\":0,\"is_valid\":true}''] init_server)) ! 0)
     = JObj [(''errors'', JArr []), (''error_count'', JNum 0), (''is_valid'', JBool True)]"
proof -
  let ?s = "run sample_runtime
        [TriggerBackground 0,
         StdoutData 0 ''{\"errors\":[],\"error_count\":0,\"is_valid\":true}''] init_server"
  have len: "0 < length (launches ?s)" by (simp add: model_defs)
  have old: "finalResult (launches ?s ! 0) = JNull" by (simp add: model_defs)
  have buf: "js_trim (stdoutBuffer (launches ?s ! 0))
             = lit ''{\"errors\":[],\"error_count\":0,\"is_valid\":true}''"
    by (simp add: model_defs)
  have new: "finalResult (launches (step sample_runtime (ProcessClose 0 (Some 0) 5000) ?s) ! 0)
     = JObj [(''errors'', JArr []), (''error_count'', JNum 0), (''is_valid'', JBool True)]"
    using trailing_buffer_on_close [OF len, where rt = sample_runtime and code = "Some 0"
        and now = 5000]
    unfolding buf by (simp add: sample_runtime_def sample_parse_def lit_def)
  from len old new show ?thesis by (simp only: simp_thms)
qed

text \<open>
  Claim C7 as stated fails: the stream delivers a final result line, then the text 42
  without a newline; on close the trailing 42 replaces the captured final result.
\<close>

theorem trailing_buffer_replaces_streamed_result:
  "finalResult (launches (run sample_runtime
        [PostValidate (Some ''full'') 0,
         StdoutData 0 (''{\"errors\":[],\"error_count\":0,\"is_valid\":true}'' @ [CHR 0x0A] @ ''42'')]
        init_server) ! 0)
     = JObj [(''errors'', JArr []), (''error_count'', JNum 0), (''is_valid'', JBool True)]
   \<and> result (job_at (run sample_runtime
        [PostValidate (Some ''full'') 0,
         StdoutData 0 (''{\"errors\":[],\"error_count\":0,\"is_valid\":true}'' @ [CHR 0x0A] @ ''42''),
         ProcessClose 0 (Some 0) 5000] init_server) 0)
     = Some (JNum 42)"
  by (simp add: model_defs)

text \<open>
  Claim C10. Connecting to the stream with a job id the registry does not hold answers
  404 with the text "Job not found", opens no event stream, and leaves the server state
  (registry, Job objects, lock) as it was.
\<close>

theorem stream_unknown_job:
  assumes "map_of (activeJobs s) jobId = None"
  shows "stream_GET jobId s = (NotFound 404 ''Job not found'', s)"
  using assms by (simp add: stream_GET_def)

theorem stream_unknown_job_witness:
  "map_of (activeJobs (run sample_runtime [PostValidate (Some ''full'') 0] init_server))
     ''no-such-job'' = None
   \<and> stream_GET ''no-such-job'' (run sample_runtime [PostValidate (Some ''full'') 0] init_server)
     = (NotFound 404 ''Job not found'',
        run sample_runtime [PostValidate (Some ''full'') 0] init_server)"
proof -
  have h: "map_of (activeJobs (run sample_runtime [PostValidate (Some ''full'') 0] init_server))
             ''no-such-job'' = None"
    by (simp add: model_defs)
  show ?thesis using stream_unknown_job [OF h] h by (simp only: simp_thms)
qed

section \<open>Where the close handler runs on a job that is already terminal\<close>

text \<open>
  The close handler does not look at the status of its job. When the cleanup interval has
  already timed the job out (error, lock released, child killed), the close event of that
  child still runs the whole handler: it assigns the status again and releases the lock
  again. The three evaluations below run the server on such sequences of events.
\<close>

text \<open>
  What does hold. While the lock is taken, both validation launchers refuse and change
  nothing. The cleanup interval, which tests \<^verbatim>\<open>job.status === 'running'\<close> first, leaves
  every terminal Job object as it is.
\<close>

lemma conflict_when_locked:
  "validationLock s \<Longrightarrow> post_validate body now s = (conflict, s)"
  by (simp add: post_validate_def tryAcquireValidationLock_def)

lemma trigger_refused_when_locked:
  "validationLock s \<Longrightarrow> triggerBackgroundValidation now s = (False, s)"
  by (simp add: triggerBackgroundValidation_def tryAcquireValidationLock_def)

lemma sweep_job_keeps_terminal:
  "terminal (job_at s a) \<Longrightarrow> job_at (sweep_job now e s) a = job_at s a"
  by (auto simp: sweep_job_def Let_def job_at_def update_job_def update_launch_def
      releaseValidationLock_def terminal_def nth_list_update split: option.splits)

lemma sweep_keeps_terminal:
  "terminal (job_at s a) \<Longrightarrow> job_at (sweep now s) a = job_at s a"
proof -
  have "terminal (job_at s a) \<Longrightarrow>
        job_at (foldl (\<lambda>s entry. sweep_job now entry s) s es) a = job_at s a" for es
    by (induction es arbitrary: s) (simp_all add: sweep_job_keeps_terminal)
  then show "terminal (job_at s a) \<Longrightarrow> job_at (sweep now s) a = job_at s a"
    by (simp add: sweep_def)
qed

text \<open>
  Claim C1, evaluated on the code. A validation is launched at time 0 and timed out by the
  cleanup tick after 30 minutes; a second validation is launched; then the close event of
  the first child arrives and releases the lock the second launch holds. The status
  endpoint still reports a running validation, yet a third launch is answered with a job
  id instead of the conflict, and two validation jobs are running.
\<close>

theorem relaunch_while_running:
  "hasActiveValidationJob
     (run sample_runtime
        [PostValidate (Some ''full'') 0, CleanupTick 1800001,
         PostValidate (Some ''full'') 1800002, ProcessClose 0 None 1800003] init_server)
   \<and> fst (post_validate (Some ''full'') 1800004
        (run sample_runtime
          [PostValidate (Some ''full'') 0, CleanupTick 1800001,
           PostValidate (Some ''full'') 1800002, ProcessClose 0 None 1800003] init_server))
      = started ''/api/validate/stream/'' ''validation-current''
   \<and> map (\<lambda>l. (job_type (job l), status (job l)))
        (launches (run sample_runtime
          [PostValidate (Some ''full'') 0, CleanupTick 1800001,
           PostValidate (Some ''full'') 1800002, ProcessClose 0 None 1800003,
           PostValidate (Some ''full'') 1800004] init_server))
      = [(Validation, Error), (Validation, Running), (Validation, Running)]"
  by (simp add: model_defs)

text \<open>
  Claim C3, evaluated on the code. On the timeout path of one launch the lock is released
  twice: once by the cleanup interval, once more by the close handler of the killed child.
\<close>

theorem timeout_then_close_releases_twice:
  "count_list
     (released (run sample_runtime
        [PostValidate (Some ''full'') 0, CleanupTick 1800001,
         ProcessClose 0 None 1800002] init_server))
     (Some 0) = 2"
  by (simp add: model_defs)

text \<open>
  Claim C4, evaluated on the code. The cleanup interval sets the job to error; the close
  event of its child, arriving with exit code 0, sets it to complete.
\<close>

theorem close_overwrites_timeout_error:
  "status (job_at (run sample_runtime
        [PostValidate (Some ''full'') 0, CleanupTick 1800001] init_server) 0) = Error
   \<and> status (job_at (run sample_runtime
        [PostValidate (Some ''full'') 0, CleanupTick 1800001,
         ProcessClose 0 (Some 0) 1800002] init_server) 0) = Complete"
  by (simp add: model_defs)

end
